theory Spec2Isabelle
  imports Main
begin

section \<open>The interactive line editor of \<open>ai.py\<close>\<close>

text \<open>
  The editor is the \<^verbatim>\<open>while True\<close> loop of \<^verbatim>\<open>AI.run\<close> together with
  \<^verbatim>\<open>AI.get_char\<close>. Everything the loop touches outside its two local variables
  (\<^verbatim>\<open>input_text\<close>, \<^verbatim>\<open>position\<close>) is collected in a record \<open>world\<close> that is passed
  through every call: the characters still to come on standard input, the characters
  written to standard output, the terminal attributes and the trace of termios calls,
  the process environment and the list of child processes started.
\<close>

subsection \<open>Python strings, integers and exceptions\<close>

text \<open>
  A Python \<^verbatim>\<open>str\<close> is a sequence of code points; \<^verbatim>\<open>ord\<close> of a one-character string
  is its code point. \<^verbatim>\<open>sys.stdin.read(1)\<close> returns a string of length one, or the
  empty string at end of stream.
\<close>

type_synonym pychar = nat
type_synonym pystr = "pychar list"

definition py :: "string \<Rightarrow> pystr" where
  "py s = map of_char s"

text \<open>\<^verbatim>\<open>'\r'\<close> and the control sequence introducer \<^verbatim>\<open>'\033['\<close>.\<close>

definition cr :: pystr where
  "cr = [13]"

definition csi :: pystr where
  "csi = [27, 91]"

datatype py_error =
    TypeError
  | TermiosError
  | CalledProcessError pystr
  | Raised pystr

text \<open>\<^verbatim>\<open>ord(char)\<close>: raises \<^verbatim>\<open>TypeError\<close> unless the string has exactly one character.\<close>

fun ord :: "pystr \<Rightarrow> py_error + nat" where
  "ord [c] = Inr c"
| "ord _ = Inl TypeError"

text \<open>
  Slicing with an integer bound, as Python does it: a negative bound counts from the
  end, and every bound is clamped to the length.
\<close>

definition slice_index :: "'a list \<Rightarrow> int \<Rightarrow> nat" where
  "slice_index xs i =
     (if i < 0 then nat (max 0 (int (length xs) + i)) else nat (min i (int (length xs))))"

definition slice_to :: "'a list \<Rightarrow> int \<Rightarrow> 'a list" where
  "slice_to xs i = take (slice_index xs i) xs"

definition slice_from :: "'a list \<Rightarrow> int \<Rightarrow> 'a list" where
  "slice_from xs i = drop (slice_index xs i) xs"

text \<open>The decimal text of an integer, as an f-string formats it.\<close>

fun digits :: "nat \<Rightarrow> pystr" where
  "digits n = (if n < 10 then [48 + n] else digits (n div 10) @ [48 + n mod 10])"

declare digits.simps [simp del]

definition str_int :: "int \<Rightarrow> pystr" where
  "str_int i = (if i < 0 then 45 # digits (nat (- i)) else digits (nat i))"

text \<open>Reading a decimal text back (used only to state what \<open>str_int\<close> produces).\<close>

definition decimal_value :: "pystr \<Rightarrow> nat" where
  "decimal_value ds = foldl (\<lambda>acc d. 10 * acc + (d - 48)) 0 ds"

subsection \<open>The world\<close>

text \<open>
  Terminal attributes are opaque apart from whether they are raw: \<^verbatim>\<open>tty.setraw\<close>
  makes them raw and keeps the rest.
\<close>

datatype termios_attr = Attr (is_raw: bool) (settings: nat)

definition setraw_attr :: "termios_attr \<Rightarrow> termios_attr" where
  "setraw_attr a = Attr True (settings a)"

datatype tty_call = TcGetAttr | SetRaw | TcSetAttr termios_attr

record world =
  stdin :: pystr
  stdout :: pystr
  isatty :: bool
  attrs :: termios_attr
  tty_calls :: "tty_call list"
  environ :: "pystr \<rightharpoonup> pystr"
  spawned :: "(pystr list \<times> (pystr \<rightharpoonup> pystr)) list"
  child :: "pystr list \<Rightarrow> (pystr \<rightharpoonup> pystr) \<Rightarrow> py_error + int"
  llm :: "pystr list \<Rightarrow> py_error + pystr"
  init_error :: "py_error option"

text \<open>
  \<open>stdin\<close>: the characters the terminal will still deliver; when it is empty the
  next read is at end of stream. \<open>isatty\<close>: whether termios calls on standard input
  succeed. \<open>child argv env\<close>: what \<^verbatim>\<open>subprocess.call\<close> does for that command, a raised
  exception or the exit status. \<open>llm args\<close>: what \<^verbatim>\<open>call_llm(get_prompt(' '.join(args)))\<close>
  does, a raised exception or the command text. \<open>init_error\<close>: the exception raised by
  the constructor \<^verbatim>\<open>AI()\<close>, if any.
\<close>

text \<open>
  \<open>stdout\<close> is the sequence of characters written, in the order of the writes, so
  \<^verbatim>\<open>sys.stdout.flush()\<close> has no counterpart. \<^verbatim>\<open>print(s)\<close> writes \<open>s\<close> and a newline.
\<close>

definition stdout_write :: "pystr \<Rightarrow> world \<Rightarrow> world" where
  "stdout_write s w = w\<lparr>stdout := stdout w @ s\<rparr>"

definition py_print :: "pystr \<Rightarrow> world \<Rightarrow> world" where
  "py_print s w = stdout_write (s @ [10]) w"

definition tcsetattr :: "termios_attr \<Rightarrow> world \<Rightarrow> world" where
  "tcsetattr a w = w\<lparr>attrs := a, tty_calls := tty_calls w @ [TcSetAttr a]\<rparr>"

definition tcgetattr :: "world \<Rightarrow> termios_attr \<times> world" where
  "tcgetattr w = (attrs w, w\<lparr>tty_calls := tty_calls w @ [TcGetAttr]\<rparr>)"

definition setraw :: "world \<Rightarrow> world" where
  "setraw w = w\<lparr>attrs := setraw_attr (attrs w), tty_calls := tty_calls w @ [SetRaw]\<rparr>"

definition stdin_read1 :: "world \<Rightarrow> pystr \<times> world" where
  "stdin_read1 w = (take 1 (stdin w), w\<lparr>stdin := drop 1 (stdin w)\<rparr>)"

subsection \<open>\<^verbatim>\<open>AI.get_char\<close>\<close>

text \<open>
  \<^verbatim>\<open>
  def get_char(self):
      fd = sys.stdin.fileno()
      old_settings = termios.tcgetattr(fd)
      try:
          tty.setraw(fd)
          ch = sys.stdin.read(1)
      finally:
          termios.tcsetattr(fd, termios.TCSADRAIN, old_settings)
      return ch
  \<close>
\<close>

definition get_char :: "world \<Rightarrow> (py_error + pystr) \<times> world" where
  "get_char w =
     (if \<not> isatty w then (Inl TermiosError, w)
      else
        let (old_settings, w1) = tcgetattr w;
            w2 = setraw w1;
            (ch, w3) = stdin_read1 w2;
            w4 = tcsetattr old_settings w3
        in (Inr ch, w4))"

subsection \<open>One iteration of the loop of \<^verbatim>\<open>AI.run\<close>\<close>

datatype loop_ctl = Continue pystr int | Break | Return int

text \<open>Lines 185 to 192: the repaint at the top of every iteration.\<close>

definition repaint :: "pystr \<Rightarrow> int \<Rightarrow> world \<Rightarrow> world" where
  "repaint input_text position w =
     (let w1 = stdout_write cr w;
          w2 = stdout_write (csi @ py ''K'') w1;
          w3 = stdout_write input_text w2;
          w4 = stdout_write cr w3
      in if position > 0 then stdout_write (csi @ str_int position @ py ''C'') w4 else w4)"

text \<open>Lines 199 to 211: the key after \<^verbatim>\<open>ESC [\<close>.\<close>

definition csi_key :: "pystr \<Rightarrow> int \<Rightarrow> world \<Rightarrow> (py_error + loop_ctl) \<times> world" where
  "csi_key input_text position w =
     (case get_char w of
        (Inl e, w1) \<Rightarrow> (Inl e, w1)
      | (Inr char3, w1) \<Rightarrow>
          if char3 = py ''D'' then (Inr (Continue input_text (max 0 (position - 1))), w1)
          else if char3 = py ''C'' then
            (Inr (Continue input_text (min (int (length input_text)) (position + 1))), w1)
          else if char3 = py ''H'' then (Inr (Continue input_text 0), w1)
          else if char3 = py ''F'' then (Inr (Continue input_text (int (length input_text))), w1)
          else if char3 = py ''3'' then
            (case get_char w1 of
               (Inl e, w2) \<Rightarrow> (Inl e, w2)
             | (Inr _, w2) \<Rightarrow>
                 if position < int (length input_text) then
                   (Inr (Continue (slice_to input_text position @ slice_from input_text (position + 1))
                           position), w2)
                 else (Inr (Continue input_text position), w2))
          else (Inr (Continue input_text position), w1))"

text \<open>Lines 196 to 226: the dispatch on the first character of a key.\<close>

definition dispatch :: "pystr \<Rightarrow> pystr \<Rightarrow> int \<Rightarrow> world \<Rightarrow> (py_error + loop_ctl) \<times> world" where
  "dispatch char input_text position w =
     (case ord char of
        Inl e \<Rightarrow> (Inl e, w)
      | Inr c \<Rightarrow>
          if c = 27 then
            (case get_char w of
               (Inl e, w1) \<Rightarrow> (Inl e, w1)
             | (Inr char2, w1) \<Rightarrow>
                 if char2 = py ''['' then csi_key input_text position w1
                 else (Inr (Return 0), py_print (10 # py ''Cancelled.'') w1))
          else if c = 13 then (Inr Break, w)
          else if c \<in> {127, 8} then
            (if position > 0 then
               (Inr (Continue (slice_to input_text (position - 1) @ slice_from input_text position)
                       (position - 1)), w)
             else (Inr (Continue input_text position), w))
          else if c \<ge> 32 then
            (Inr (Continue (slice_to input_text position @ char @ slice_from input_text position)
                    (position + 1)), w)
          else (Inr (Continue input_text position), w))"

definition loop_body :: "pystr \<Rightarrow> int \<Rightarrow> world \<Rightarrow> (py_error + loop_ctl) \<times> world" where
  "loop_body input_text position w =
     (case get_char (repaint input_text position w) of
        (Inl e, w1) \<Rightarrow> (Inl e, w1)
      | (Inr char, w1) \<Rightarrow> dispatch char input_text position w1)"

subsection \<open>The loop\<close>

text \<open>
  Every iteration reads at least one character, and an iteration that reads at end of
  stream does not continue, so the loop over a finite input is a total function; the
  measure is the number of characters still to come.
\<close>

lemma get_char_stdin:
  "get_char w = (Inr ch, w1) \<Longrightarrow> ch = take 1 (stdin w) \<and> stdin w1 = drop 1 (stdin w)"
  by (auto simp: get_char_def tcgetattr_def setraw_def stdin_read1_def tcsetattr_def
      split: if_splits)

lemma get_char_stdin_le:
  "get_char w = (r, w1) \<Longrightarrow> length (stdin w1) \<le> length (stdin w)"
  by (auto simp: get_char_def tcgetattr_def setraw_def stdin_read1_def tcsetattr_def
      split: if_splits)

lemma repaint_stdin: "stdin (repaint t p w) = stdin w"
  by (simp add: repaint_def stdout_write_def Let_def)

lemma csi_key_stdin_le:
  "csi_key t p w = (r, w1) \<Longrightarrow> length (stdin w1) \<le> length (stdin w)"
  by (auto simp: csi_key_def split: prod.splits sum.splits if_splits
      dest!: get_char_stdin_le)

lemma dispatch_stdin_le:
  "dispatch ch t p w = (r, w1) \<Longrightarrow> length (stdin w1) \<le> length (stdin w)"
  by (auto simp: dispatch_def py_print_def stdout_write_def
      split: prod.splits sum.splits if_splits dest!: get_char_stdin_le csi_key_stdin_le)

lemma loop_body_continue_stdin:
  assumes "loop_body t p w = (Inr (Continue t' p'), w')"
  shows "length (stdin w') < length (stdin w)"
proof -
  obtain ch w1 where g: "get_char (repaint t p w) = (Inr ch, w1)"
    and d: "dispatch ch t p w1 = (Inr (Continue t' p'), w')"
    using assms by (auto simp: loop_body_def split: prod.splits sum.splits)
  from g have ch: "ch = take 1 (stdin w)" and s1: "stdin w1 = drop 1 (stdin w)"
    using get_char_stdin[OF g] by (simp_all add: repaint_stdin)
  have "stdin w \<noteq> []"
  proof
    assume "stdin w = []"
    with ch have "ch = []" by simp
    with d show False by (simp add: dispatch_def)
  qed
  moreover have "length (stdin w') \<le> length (stdin w1)"
    using dispatch_stdin_le[OF d] .
  ultimately show ?thesis using s1 by (cases "stdin w") auto
qed

datatype loop_exit = Broke pystr int | Returned int

function edit_loop :: "pystr \<Rightarrow> int \<Rightarrow> world \<Rightarrow> (py_error + loop_exit) \<times> world" where
  "edit_loop input_text position w =
     (case loop_body input_text position w of
        (Inl e, w1) \<Rightarrow> (Inl e, w1)
      | (Inr (Continue input_text' position'), w1) \<Rightarrow> edit_loop input_text' position' w1
      | (Inr Break, w1) \<Rightarrow> (Inr (Broke input_text position), w1)
      | (Inr (Return n), w1) \<Rightarrow> (Inr (Returned n), w1))"
  by pat_completeness auto
termination
  by (relation "measure (\<lambda>(t, p, w). length (stdin w))")
     (auto dest: loop_body_continue_stdin [OF sym])

declare edit_loop.simps [simp del]

text \<open>
  The state at the top of the loop after \<open>n\<close> complete iterations, when the loop is
  still running then.
\<close>

fun editing :: "nat \<Rightarrow> pystr \<Rightarrow> int \<Rightarrow> world \<Rightarrow> (pystr \<times> int \<times> world) option" where
  "editing 0 t p w = Some (t, p, w)"
| "editing (Suc n) t p w =
     (case loop_body t p w of
        (Inr (Continue t' p'), w') \<Rightarrow> editing n t' p' w'
      | _ \<Rightarrow> None)"

subsection \<open>\<^verbatim>\<open>AI.run\<close> and \<^verbatim>\<open>main\<close>\<close>

text \<open>Lines 180 to 229: the saved attributes, the loop and the \<^verbatim>\<open>finally\<close> clause.\<close>

definition edit_session :: "pystr \<Rightarrow> world \<Rightarrow> (py_error + loop_exit) \<times> world" where
  "edit_session command w =
     (if \<not> isatty w then (Inl TermiosError, w)
      else
        let (old_settings, w1) = tcgetattr w;
            (r, w2) = edit_loop command (int (length command)) w1
        in (r, tcsetattr old_settings w2))"

definition subprocess_call ::
  "pystr list \<Rightarrow> (pystr \<rightharpoonup> pystr) \<Rightarrow> world \<Rightarrow> (py_error + int) \<times> world" where
  "subprocess_call cmd env w = (child w cmd env, w\<lparr>spawned := spawned w @ [(cmd, env)]\<rparr>)"

text \<open>Lines 235 to 244.\<close>

definition execute :: "pystr \<Rightarrow> world \<Rightarrow> (py_error + int) \<times> world" where
  "execute input_text w =
     (let env = (environ w)(py ''TERM'' \<mapsto> py ''xterm-256color'')
      in case subprocess_call [py ''bash'', py ''-c'', input_text] env w of
           (Inl (CalledProcessError m), w1) \<Rightarrow>
             (Inr 1, py_print (py ''Command execution failed: '' @ m) w1)
         | (r, w1) \<Rightarrow> (r, w1))"

definition banner :: pystr where
  "banner = 10 # py ''Edit command and press Enter to execute, or ESC to cancel:'' @ [10]"

text \<open>The world in which the loop starts: the banner printed, the attributes saved.\<close>

definition loop_start :: "world \<Rightarrow> world" where
  "loop_start w = snd (tcgetattr (py_print banner w))"

definition run :: "pystr list \<Rightarrow> world \<Rightarrow> (py_error + int) \<times> world" where
  "run args w =
     (case llm w args of
        Inl e \<Rightarrow> (Inl e, w)
      | Inr command \<Rightarrow>
          (case edit_session command (py_print banner w) of
             (Inl e, w1) \<Rightarrow> (Inl e, w1)
           | (Inr (Returned n), w1) \<Rightarrow> (Inr n, w1)
           | (Inr (Broke input_text position), w1) \<Rightarrow>
               execute (if input_text = [] then command else input_text) (py_print [] w1)))"

text \<open>The text of an exception, as \<^verbatim>\<open>str(e)\<close> gives it.\<close>

fun str_exc :: "py_error \<Rightarrow> pystr" where
  "str_exc TypeError = py ''ord() expected a character, but string of length 0 found''"
| "str_exc TermiosError = py ''(25, '' @ [39] @ py ''Inappropriate ioctl for device'' @ [39] @ py '')''"
| "str_exc (CalledProcessError m) = m"
| "str_exc (Raised m) = m"

text \<open>
  \<open>main argv w\<close> is the status handed to \<^verbatim>\<open>sys.exit\<close>; \<open>argv\<close> is \<^verbatim>\<open>sys.argv\<close>.
\<close>

definition main :: "pystr list \<Rightarrow> world \<Rightarrow> int \<times> world" where
  "main argv w =
     (case init_error w of
        Some e \<Rightarrow> (1, py_print (py ''Error: '' @ str_exc e) w)
      | None \<Rightarrow>
          let args = drop 1 argv
          in if args = [] then (1, py_print (py ''Usage: ai <your command description>'') w)
             else (case run args w of
                     (Inl e, w1) \<Rightarrow> (1, py_print (py ''Error: '' @ str_exc e) w1)
                   | (Inr n, w1) \<Rightarrow> (n, w1)))"

subsection \<open>A sample terminal\<close>

text \<open>
  A terminal in cooked mode on which the user types \<open>keys\<close> and the stream then ends,
  with a translation service that answers \<open>command\<close> and child processes that exit
  with status 0. It is used for the concrete runs only.
\<close>

definition terminal :: "pystr \<Rightarrow> pystr \<Rightarrow> world" where
  "terminal command keys =
     \<lparr>stdin = keys, stdout = [], isatty = True, attrs = Attr False 0, tty_calls = [],
      environ = Map.empty, spawned = [], child = (\<lambda>cmd env. Inr 0),
      llm = (\<lambda>args. Inr command), init_error = None\<rparr>"

subsection \<open>Notions used in the properties\<close>

text \<open>The termios calls of one \<open>get_char\<close> on a terminal whose attributes are \<open>a\<close>.\<close>

definition key_calls :: "termios_attr \<Rightarrow> tty_call list" where
  "key_calls a = [TcGetAttr, SetRaw, TcSetAttr a]"

text \<open>The number of calls in a trace that set the terminal attributes back.\<close>

fun is_restore :: "tty_call \<Rightarrow> bool" where
  "is_restore (TcSetAttr a) = True"
| "is_restore _ = False"

definition restores :: "tty_call list \<Rightarrow> nat" where
  "restores calls = length (filter is_restore calls)"

text \<open>
  The part of the world that is the same after every operation of the editor (the
  attributes are changed inside \<open>get_char\<close>, and set back before it returns).
\<close>

definition same_frame :: "world \<Rightarrow> world \<Rightarrow> bool" where
  "same_frame w w' \<longleftrightarrow>
     isatty w' = isatty w \<and> attrs w' = attrs w \<and> environ w' = environ w \<and>
     spawned w' = spawned w \<and> child w' = child w \<and> llm w' = llm w \<and>
     init_error w' = init_error w"

section \<open>Properties\<close>

subsection \<open>Auxiliary facts\<close>

lemma py_simps [simp]: "py [] = []" "py (c # cs) = of_char c # py cs"
  by (simp_all add: py_def)

lemmas world_ops = get_char_def tcgetattr_def setraw_def stdin_read1_def tcsetattr_def
  stdout_write_def py_print_def repaint_def

lemma slice_to_take: "0 \<le> i \<Longrightarrow> i \<le> int (length xs) \<Longrightarrow> slice_to xs i = take (nat i) xs"
  by (simp add: slice_to_def slice_index_def min_def)

lemma slice_from_drop: "0 \<le> i \<Longrightarrow> slice_from xs i = drop (nat i) xs"
  by (auto simp add: slice_from_def slice_index_def min_def)

lemma get_char_tty:
  "isatty w \<Longrightarrow> get_char w =
     (Inr (take 1 (stdin w)),
      w\<lparr>stdin := drop 1 (stdin w), tty_calls := tty_calls w @ key_calls (attrs w)\<rparr>)"
  by (simp add: get_char_def tcgetattr_def setraw_def stdin_read1_def tcsetattr_def key_calls_def)

lemma same_frame_refl [simp]: "same_frame w w"
  by (simp add: same_frame_def)

lemma same_frame_trans: "same_frame w w1 \<Longrightarrow> same_frame w1 w2 \<Longrightarrow> same_frame w w2"
  by (simp add: same_frame_def)

lemma get_char_frame: "get_char w = (r, w') \<Longrightarrow> same_frame w w'"
proof (cases "isatty w")
  case True
  assume "get_char w = (r, w')"
  with True show ?thesis by (auto simp: get_char_tty same_frame_def)
next
  case False
  assume "get_char w = (r, w')"
  with False show ?thesis by (auto simp: get_char_def)
qed

lemma repaint_frame: "same_frame w (repaint t p w)"
  by (simp add: repaint_def stdout_write_def Let_def same_frame_def)

lemma csi_key_frame: "csi_key t p w = (r, w') \<Longrightarrow> same_frame w w'"
  by (auto simp: csi_key_def split: prod.splits sum.splits if_splits
      dest!: get_char_frame intro: same_frame_trans)

lemma dispatch_frame: "dispatch ch t p w = (r, w') \<Longrightarrow> same_frame w w'"
  by (auto simp: dispatch_def split: prod.splits sum.splits if_splits
      dest!: get_char_frame csi_key_frame intro: same_frame_trans)
     (auto simp: same_frame_def py_print_def stdout_write_def)

lemma loop_body_frame: "loop_body t p w = (r, w') \<Longrightarrow> same_frame w w'"
  by (auto simp: loop_body_def split: prod.splits sum.splits
      dest!: get_char_frame dispatch_frame intro: same_frame_trans repaint_frame)

lemma edit_loop_frame: "edit_loop t p w = (r, w') \<Longrightarrow> same_frame w w'"
proof (induction t p w rule: edit_loop.induct)
  case (1 t p w)
  obtain r1 w1 where b: "loop_body t p w = (r1, w1)" by (cases "loop_body t p w")
  have f: "same_frame w w1" using loop_body_frame[OF b] .
  show ?case
  proof (cases r1)
    case (Inl e)
    with b "1.prems" f show ?thesis by (simp add: edit_loop.simps[of t p w])
  next
    case (Inr c)
    show ?thesis
    proof (cases c)
      case (Continue t1 p1)
      with Inr b "1.prems" have "edit_loop t1 p1 w1 = (r, w')"
        by (simp add: edit_loop.simps[of t p w])
      from "1.IH"[OF b[symmetric] Inr Continue this] have "same_frame w1 w'" .
      with f show ?thesis by (rule same_frame_trans)
    next
      case Break
      with Inr b "1.prems" f show ?thesis by (simp add: edit_loop.simps[of t p w])
    next
      case (Return n)
      with Inr b "1.prems" f show ?thesis by (simp add: edit_loop.simps[of t p w])
    qed
  qed
qed

lemma editing_frame: "editing n t p w = Some (t', p', w') \<Longrightarrow> same_frame w w'"
proof (induction n arbitrary: t p w)
  case 0
  then show ?case by simp
next
  case (Suc n)
  from Suc.prems obtain t1 p1 w1 where
    b: "loop_body t p w = (Inr (Continue t1 p1), w1)" and e: "editing n t1 p1 w1 = Some (t', p', w')"
    by (auto split: prod.splits sum.splits loop_ctl.splits)
  from loop_body_frame[OF b] Suc.IH[OF e] show ?case by (rule same_frame_trans)
qed

lemma editing_edit_loop:
  "editing n t p w = Some (t', p', w') \<Longrightarrow> edit_loop t p w = edit_loop t' p' w'"
proof (induction n arbitrary: t p w)
  case 0
  then show ?case by simp
next
  case (Suc n)
  from Suc.prems obtain t1 p1 w1 where
    b: "loop_body t p w = (Inr (Continue t1 p1), w1)" and e: "editing n t1 p1 w1 = Some (t', p', w')"
    by (auto split: prod.splits sum.splits loop_ctl.splits)
  have "edit_loop t p w = edit_loop t1 p1 w1"
    using b by (simp add: edit_loop.simps[of t p w])
  with Suc.IH[OF e] show ?case by simp
qed

subsection \<open>The cursor stays inside the text\<close>

lemma csi_key_inv:
  assumes "0 \<le> p" "p \<le> int (length t)" "csi_key t p w = (Inr (Continue t' p'), w')"
  shows "0 \<le> p' \<and> p' \<le> int (length t')"
  using assms
  by (auto simp: csi_key_def slice_to_take slice_from_drop
      split: prod.splits sum.splits if_splits)

lemma dispatch_inv:
  assumes "0 \<le> p" "p \<le> int (length t)" "dispatch ch t p w = (Inr (Continue t' p'), w')"
  shows "0 \<le> p' \<and> p' \<le> int (length t')"
proof (cases ch)
  case Nil
  with assms show ?thesis by (simp add: dispatch_def)
next
  case (Cons c cs)
  show ?thesis
  proof (cases cs)
    case Nil
    with Cons assms show ?thesis
      by (auto simp: dispatch_def slice_to_take slice_from_drop
          split: prod.splits sum.splits if_splits dest: csi_key_inv)
  next
    case (Cons d ds)
    with \<open>ch = c # cs\<close> assms show ?thesis by (simp add: dispatch_def)
  qed
qed

lemma loop_body_inv:
  assumes "0 \<le> p" "p \<le> int (length t)" "loop_body t p w = (Inr (Continue t' p'), w')"
  shows "0 \<le> p' \<and> p' \<le> int (length t')"
  using assms
  by (auto simp: loop_body_def split: prod.splits sum.splits dest: dispatch_inv)

lemma editing_inv:
  "0 \<le> p \<Longrightarrow> p \<le> int (length t) \<Longrightarrow> editing n t p w = Some (t', p', w')
   \<Longrightarrow> 0 \<le> p' \<and> p' \<le> int (length t')"
proof (induction n arbitrary: t p w)
  case 0
  then show ?case by simp
next
  case (Suc n)
  from Suc.prems(3) obtain t1 p1 w1 where
    b: "loop_body t p w = (Inr (Continue t1 p1), w1)" and e: "editing n t1 p1 w1 = Some (t', p', w')"
    by (auto split: prod.splits sum.splits loop_ctl.splits)
  from loop_body_inv[OF Suc.prems(1,2) b] have "0 \<le> p1" "p1 \<le> int (length t1)" by simp_all
  from Suc.IH[OF this e] show ?case .
qed

lemma left3_delete_run:
  "\<exists>w'. editing (Suc (Suc (Suc (Suc 0)))) (py ''ls -la'') (int (length (py ''ls -la'')))
          (terminal (py ''ls -la'') [27, 91, 68, 27, 91, 68, 27, 91, 68, 27, 91, 51, 126])
        = Some (py ''ls la'', 3, w')"
  by (simp add: terminal_def loop_body_def dispatch_def csi_key_def world_ops Let_def
      slice_to_def slice_from_def slice_index_def)

text \<open>
  C1. The loop of \<open>run\<close> starts with the seed text and the cursor at its end. Whatever
  keys are typed, at the top of the loop after any number of iterations (every insert,
  backspace, delete, cursor move, home or end has then been applied) the cursor is at
  least 0 and at most the length of the text.
\<close>

theorem cursor_invariant:
  "editing n command (int (length command)) w = Some (input_text, position, w')
   \<Longrightarrow> 0 \<le> position \<and> position \<le> int (length input_text)"
  using editing_inv[of "int (length command)" command n w input_text position w'] by simp

theorem cursor_invariant_witness:
  "\<exists>w'. editing (Suc (Suc (Suc (Suc 0)))) (py ''ls -la'') (int (length (py ''ls -la'')))
          (terminal (py ''ls -la'') [27, 91, 68, 27, 91, 68, 27, 91, 68, 27, 91, 51, 126])
        = Some (py ''ls la'', 3, w')
      \<and> (0::int) \<le> 3 \<and> 3 \<le> int (length (py ''ls la''))"
proof -
  obtain w' where e:
    "editing (Suc (Suc (Suc (Suc 0)))) (py ''ls -la'') (int (length (py ''ls -la'')))
       (terminal (py ''ls -la'') [27, 91, 68, 27, 91, 68, 27, 91, 68, 27, 91, 51, 126])
     = Some (py ''ls la'', 3, w')"
    using left3_delete_run by blast
  from cursor_invariant[OF e] e show ?thesis by blast
qed

subsection \<open>Single iterations\<close>

lemma repaint_fields [simp]:
  "isatty (repaint t p w) = isatty w"
  "stdin (repaint t p w) = stdin w"
  "attrs (repaint t p w) = attrs w"
  by (simp_all add: repaint_def stdout_write_def Let_def)

lemma decimal_value_snoc: "decimal_value (ds @ [d]) = 10 * decimal_value ds + (d - 48)"
  by (simp add: decimal_value_def)

lemma decimal_value_digits: "decimal_value (digits n) = n"
proof (induction n rule: digits.induct)
  case (1 n)
  show ?case
  proof (cases "n < 10")
    case True
    then show ?thesis by (simp add: digits.simps[of n] decimal_value_def)
  next
    case False
    with 1 have "decimal_value (digits (n div 10)) = n div 10" by simp
    with False show ?thesis by (simp add: digits.simps[of n] decimal_value_snoc)
  qed
qed

lemma digits_range: "list_all (\<lambda>d. 48 \<le> d \<and> d \<le> 57) (digits n)"
proof (induction n rule: digits.induct)
  case (1 n)
  show ?case
  proof (cases "n < 10")
    case True
    then show ?thesis by (simp add: digits.simps[of n])
  next
    case False
    with 1 have "list_all (\<lambda>d. 48 \<le> d \<and> d \<le> 57) (digits (n div 10))" by simp
    moreover have "n mod 10 \<le> 9" by simp
    ultimately show ?thesis using False by (simp add: digits.simps[of n])
  qed
qed

lemma get_char_stdout: "stdout (snd (get_char w)) = stdout w"
  by (cases "isatty w") (simp_all add: get_char_tty, simp add: get_char_def)

lemma csi_key_stdout: "stdout (snd (csi_key t p w)) = stdout w"
proof -
  have a: "\<And>w r w'. get_char w = (r, w') \<Longrightarrow> stdout w' = stdout w"
    using get_char_stdout by (metis snd_conv)
  show ?thesis
    by (auto simp: csi_key_def split: prod.splits sum.splits if_splits dest!: a)
qed

lemma dispatch_stdout: "\<exists>tail. stdout (snd (dispatch ch t p w)) = stdout w @ tail"
proof -
  have a: "\<And>w r w'. get_char w = (r, w') \<Longrightarrow> stdout w' = stdout w"
    using get_char_stdout by (metis snd_conv)
  show ?thesis
    by (auto simp: dispatch_def csi_key_stdout py_print_def stdout_write_def
        split: prod.splits sum.splits if_splits dest!: a)
qed

lemma loop_body_stdout: "\<exists>tail. stdout (snd (loop_body t p w)) = stdout (repaint t p w) @ tail"
proof -
  obtain r w1 where g: "get_char (repaint t p w) = (r, w1)"
    by (cases "get_char (repaint t p w)")
  then have s: "stdout w1 = stdout (repaint t p w)"
    using get_char_stdout[of "repaint t p w"] by simp
  show ?thesis
  proof (cases r)
    case (Inl e)
    with g s show ?thesis by (simp add: loop_body_def)
  next
    case (Inr ch)
    with g s dispatch_stdout[of ch t p w1] show ?thesis by (simp add: loop_body_def)
  qed
qed

lemma delete_key_aux:
  assumes "isatty w" "stdin w = 27 # 91 # 51 # 126 # rest" "0 \<le> p" "p \<le> int (length t)"
  shows "\<exists>w'. loop_body t p w =
           (Inr (Continue (if p < int (length t) then take (nat p) t @ drop (Suc (nat p)) t else t) p), w')
         \<and> stdin w' = rest"
  using assms
  by (simp add: loop_body_def dispatch_def csi_key_def get_char_tty slice_to_take slice_from_drop
      nat_add_distrib)

lemma unrecognised_csi:
  assumes "isatty w" "stdin w = 27 # 91 # c # rest" "c \<notin> {68, 67, 72, 70, 51}"
  shows "\<exists>w'. loop_body t p w = (Inr (Continue t p), w') \<and> stdin w' = rest"
  using assms
  by (simp add: loop_body_def dispatch_def csi_key_def get_char_tty)

lemma unrecognised_control:
  assumes "isatty w" "stdin w = c # rest" "c < 32" "c \<notin> {13, 8, 27}"
  shows "\<exists>w'. loop_body t p w = (Inr (Continue t p), w') \<and> stdin w' = rest"
  using assms
  by (simp add: loop_body_def dispatch_def csi_key_def get_char_tty)

text \<open>
  C6. In any editing state, when the next four characters of the input are
  \<^verbatim>\<open>ESC [ 3 ~\<close>, one iteration of the loop consumes exactly these four, the loop goes
  on, the cursor is unchanged, and the character at the cursor is removed when the
  cursor is before the end of the text (otherwise the text is unchanged).
\<close>

theorem delete_key:
  assumes "isatty w" and "stdin w = 27 # 91 # 51 # 126 # rest"
    and "0 \<le> position" and "position \<le> int (length input_text)"
  shows "\<exists>w'. loop_body input_text position w =
           (Inr (Continue (if position < int (length input_text)
                           then take (nat position) input_text @ drop (Suc (nat position)) input_text
                           else input_text) position), w')
         \<and> stdin w' = rest"
  using assms by (rule delete_key_aux)

theorem delete_key_witness:
  "\<exists>w'. loop_body (py ''ls -la'') 3 (terminal (py ''ls -la'') [27, 91, 51, 126, 13]) =
          (Inr (Continue (py ''ls la'') 3), w')
        \<and> stdin w' = [13]"
  using delete_key[of "terminal (py ''ls -la'') [27, 91, 51, 126, 13]" "[13]" 3 "py ''ls -la''"]
  by (simp add: terminal_def)

text \<open>
  C7. The repaint at the top of an iteration writes, in this order and nothing else, a
  carriage return, \<^verbatim>\<open>ESC [ K\<close>, the whole text, a carriage return and, only when the
  cursor is greater than 0, \<^verbatim>\<open>ESC [\<close>, the cursor in decimal digits and \<^verbatim>\<open>C\<close>; it
  changes nothing but standard output, and whatever else an iteration writes comes
  after it.
\<close>

theorem repaint_emits:
  "repaint t p w =
     w\<lparr>stdout := stdout w @ [13] @ [27, 91, 75] @ t @ [13] @
                  (if p > 0 then [27, 91] @ str_int p @ [67] else [])\<rparr>
   \<and> (p > 0 \<longrightarrow> decimal_value (str_int p) = nat p
                \<and> list_all (\<lambda>d. 48 \<le> d \<and> d \<le> 57) (str_int p))
   \<and> (\<exists>tail. stdout (snd (loop_body t p w)) = stdout (repaint t p w) @ tail)"
proof -
  have "repaint t p w =
     w\<lparr>stdout := stdout w @ [13] @ [27, 91, 75] @ t @ [13] @
                  (if p > 0 then [27, 91] @ str_int p @ [67] else [])\<rparr>"
    by (simp add: repaint_def stdout_write_def cr_def csi_def Let_def)
  moreover have "p > 0 \<longrightarrow> decimal_value (str_int p) = nat p
                \<and> list_all (\<lambda>d. 48 \<le> d \<and> d \<le> 57) (str_int p)"
    by (simp add: str_int_def decimal_value_digits digits_range)
  ultimately show ?thesis using loop_body_stdout[of t p w] by blast
qed

theorem repaint_emits_witness:
  "(0::int) < 6
   \<and> stdout (repaint (py ''ls -la'') 6 (terminal (py ''ls -la'') [13]))
       = [13] @ [27, 91, 75] @ py ''ls -la'' @ [13] @ [27, 91, 54, 67]
   \<and> decimal_value (str_int 6) = 6
   \<and> stdout (repaint (py ''ls -la'') 0 (terminal (py ''ls -la'') [13]))
       = [13] @ [27, 91, 75] @ py ''ls -la'' @ [13]"
  using repaint_emits[of "py ''ls -la''" 6 "terminal (py ''ls -la'') [13]"]
        repaint_emits[of "py ''ls -la''" 0 "terminal (py ''ls -la'') [13]"]
  by (simp add: terminal_def str_int_def digits.simps)

text \<open>
  C8. A character after \<^verbatim>\<open>ESC [\<close> other than \<^verbatim>\<open>D\<close>, \<^verbatim>\<open>C\<close>, \<^verbatim>\<open>H\<close>, \<^verbatim>\<open>F\<close>, \<^verbatim>\<open>3\<close>,
  and a single character below 32 other than 13, 8 and 27, is consumed, changes
  neither the text nor the cursor, and the loop goes on.
\<close>

theorem unrecognised_input_ignored:
  assumes "isatty w"
    and "(stdin w = 27 # 91 # c # rest \<and> c \<notin> {68, 67, 72, 70, 51})
         \<or> (stdin w = c # rest \<and> c < 32 \<and> c \<notin> {13, 8, 27})"
  shows "\<exists>w'. loop_body input_text position w = (Inr (Continue input_text position), w')
              \<and> stdin w' = rest"
  using assms unrecognised_csi unrecognised_control by blast

theorem unrecognised_input_ignored_witness:
  "(\<exists>w'. loop_body (py ''ls'') 2 (terminal (py ''ls'') [27, 91, 65, 13]) =
            (Inr (Continue (py ''ls'') 2), w') \<and> stdin w' = [13])
   \<and> (\<exists>w'. loop_body (py ''ls'') 2 (terminal (py ''ls'') [3, 13]) =
            (Inr (Continue (py ''ls'') 2), w') \<and> stdin w' = [13])"
  using unrecognised_input_ignored[of "terminal (py ''ls'') [27, 91, 65, 13]" 65 "[13]" "py ''ls''" 2]
        unrecognised_input_ignored[of "terminal (py ''ls'') [3, 13]" 3 "[13]" "py ''ls''" 2]
  by (simp add: terminal_def)

subsection \<open>Whole sessions\<close>

lemma loop_start_fields [simp]:
  "isatty (loop_start w) = isatty w"
  "stdin (loop_start w) = stdin w"
  "attrs (loop_start w) = attrs w"
  "spawned (loop_start w) = spawned w"
  "environ (loop_start w) = environ w"
  "child (loop_start w) = child w"
  "llm (loop_start w) = llm w"
  "init_error (loop_start w) = init_error w"
  "tty_calls (loop_start w) = tty_calls w @ [TcGetAttr]"
  by (simp_all add: loop_start_def tcgetattr_def py_print_def stdout_write_def)

lemma run_unfold:
  assumes "llm w args = Inr command" "isatty w"
    and "edit_loop command (int (length command)) (loop_start w) = (r, w2)"
  shows "run args w =
     (case r of
        Inl e \<Rightarrow> (Inl e, tcsetattr (attrs w) w2)
      | Inr (Returned n) \<Rightarrow> (Inr n, tcsetattr (attrs w) w2)
      | Inr (Broke t p) \<Rightarrow>
          execute (if t = [] then command else t) (py_print [] (tcsetattr (attrs w) w2)))"
  using assms
  by (simp add: run_def edit_session_def loop_start_def tcgetattr_def py_print_def
      stdout_write_def split: sum.splits loop_exit.splits)

lemma enter_exit:
  assumes "isatty w" "stdin w = 13 # rest"
  shows "\<exists>w'. edit_loop t p w = (Inr (Broke t p), w')"
  using assms
  by (simp add: edit_loop.simps[of t p w] loop_body_def dispatch_def get_char_tty)

lemma escape_exit:
  assumes "isatty w" "stdin w = 27 # rest" "take 1 rest \<noteq> [91]"
  shows "\<exists>w'. edit_loop t p w = (Inr (Returned 0), w')
     \<and> stdout w' = stdout (repaint t p w) @ 10 # py ''Cancelled.'' @ [10]"
  using assms
  by (simp add: edit_loop.simps[of t p w] loop_body_def dispatch_def get_char_tty
      py_print_def stdout_write_def)

lemma eof_exit:
  assumes "isatty w" "stdin w = []"
  shows "\<exists>w'. edit_loop t p w = (Inl TypeError, w')"
  using assms
  by (simp add: edit_loop.simps[of t p w] loop_body_def dispatch_def get_char_tty)

text \<open>
  End of stream at the read after \<^verbatim>\<open>ESC [\<close>, and at the read after \<^verbatim>\<open>ESC [ 3\<close>:
  the empty string is compared with the key letters, or dropped, the iteration
  completes, and the next one is at end of stream when it reads its first character.
\<close>

lemma eof_after_csi_step:
  assumes "isatty w" "stdin w = [27, 91]"
  shows "\<exists>w'. loop_body t p w = (Inr (Continue t p), w') \<and> isatty w' \<and> stdin w' = []"
  using assms
  by (simp add: loop_body_def dispatch_def csi_key_def get_char_tty)

lemma eof_after_csi3_step:
  assumes "isatty w" "stdin w = [27, 91, 51]"
  shows "\<exists>t' w'. loop_body t p w = (Inr (Continue t' p), w') \<and> isatty w' \<and> stdin w' = []"
  using assms
  by (simp add: loop_body_def dispatch_def csi_key_def get_char_tty)

lemma eof_any_exit:
  assumes "isatty w" "stdin w = [] \<or> stdin w = [27, 91] \<or> stdin w = [27, 91, 51]"
  shows "\<exists>w'. edit_loop t p w = (Inl TypeError, w')"
proof -
  from assms(2) consider "stdin w = []" | "stdin w = [27, 91]" | "stdin w = [27, 91, 51]"
    by blast
  then show ?thesis
  proof cases
    case 1
    with assms(1) show ?thesis by (rule eof_exit)
  next
    case 2
    from eof_after_csi_step[OF assms(1) 2, of t p] obtain w1 where
      b: "loop_body t p w = (Inr (Continue t p), w1)" and i: "isatty w1" and e: "stdin w1 = []"
      by blast
    from b have "edit_loop t p w = edit_loop t p w1" by (simp add: edit_loop.simps[of t p w])
    with eof_exit[OF i e, of t p] show ?thesis by simp
  next
    case 3
    from eof_after_csi3_step[OF assms(1) 3, of t p] obtain t1 w1 where
      b: "loop_body t p w = (Inr (Continue t1 p), w1)" and i: "isatty w1" and e: "stdin w1 = []"
      by blast
    from b have "edit_loop t p w = edit_loop t1 p w1" by (simp add: edit_loop.simps[of t p w])
    with eof_exit[OF i e, of t1 p] show ?thesis by simp
  qed
qed

lemma execute_spawned:
  "spawned (snd (execute text w)) =
     spawned w @ [([py ''bash'', py ''-c'', text], (environ w)(py ''TERM'' \<mapsto> py ''xterm-256color''))]"
  by (simp add: execute_def subprocess_call_def py_print_def stdout_write_def Let_def
      split: sum.splits py_error.splits)

lemma execute_result:
  "fst (execute text w) =
     (case child w [py ''bash'', py ''-c'', text] ((environ w)(py ''TERM'' \<mapsto> py ''xterm-256color'')) of
        Inl (CalledProcessError m) \<Rightarrow> Inr 1
      | r \<Rightarrow> r)"
  by (simp add: execute_def subprocess_call_def Let_def split: sum.splits py_error.splits)

text \<open>What a session that is confirmed with Enter does.\<close>

lemma run_confirmed:
  assumes "llm w args = Inr command" "isatty w"
    and "editing n command (int (length command)) (loop_start w) = Some (t, p, w1)"
    and "stdin w1 = 13 # rest"
  shows "\<exists>w3. run args w = execute (if t = [] then command else t) w3
              \<and> spawned w3 = spawned w \<and> environ w3 = environ w \<and> child w3 = child w"
proof -
  have f1: "same_frame (loop_start w) w1" using editing_frame[OF assms(3)] .
  then have tty1: "isatty w1" using assms(2) by (simp add: same_frame_def)
  from enter_exit[OF tty1 assms(4)] obtain w2 where
    x: "edit_loop t p w1 = (Inr (Broke t p), w2)" by blast
  have f2: "same_frame w1 w2" using edit_loop_frame[OF x] .
  have l: "edit_loop command (int (length command)) (loop_start w) = (Inr (Broke t p), w2)"
    using editing_edit_loop[OF assms(3)] x by simp
  let ?w3 = "py_print [] (tcsetattr (attrs w) w2)"
  have "run args w = execute (if t = [] then command else t) ?w3"
    using run_unfold[OF assms(1,2) l] by simp
  moreover have "spawned ?w3 = spawned w \<and> environ ?w3 = environ w \<and> child ?w3 = child w"
    using f1 f2 by (simp add: same_frame_def py_print_def stdout_write_def tcsetattr_def)
  ultimately show ?thesis by blast
qed

text \<open>
  C4. When a session is confirmed (the loop, after any number of iterations, reads
  Enter), the text handed to the shell is the edited text, unless the edited text is
  empty: then it is the seed text that the translation service returned.
\<close>

theorem confirmed_text:
  assumes "llm w args = Inr command" and "isatty w"
    and "editing n command (int (length command)) (loop_start w) = Some (input_text, position, w1)"
    and "stdin w1 = 13 # rest"
  shows "\<exists>env. spawned (snd (run args w)) =
           spawned w @ [([py ''bash'', py ''-c'', if input_text = [] then command else input_text], env)]"
proof -
  from run_confirmed[OF assms] obtain w3 where
    "run args w = execute (if input_text = [] then command else input_text) w3"
    "spawned w3 = spawned w" by blast
  then show ?thesis using execute_spawned[of "if input_text = [] then command else input_text" w3]
    by auto
qed

text \<open>
  C10. A confirmed session starts exactly one child process: \<^verbatim>\<open>bash\<close> with the
  arguments \<^verbatim>\<open>-c\<close> and the final text, in an environment that maps \<^verbatim>\<open>TERM\<close> to
  \<^verbatim>\<open>xterm-256color\<close> and agrees with the environment of the parent on every other
  variable. The value of \<open>run\<close> is what the call of the child gives.
\<close>

theorem executes_bash:
  assumes "llm w args = Inr command" and "isatty w"
    and "editing n command (int (length command)) (loop_start w) = Some (input_text, position, w1)"
    and "stdin w1 = 13 # rest"
    and "final = (if input_text = [] then command else input_text)"
  shows "\<exists>env. spawned (snd (run args w)) = spawned w @ [([py ''bash'', py ''-c'', final], env)]
           \<and> env (py ''TERM'') = Some (py ''xterm-256color'')
           \<and> (\<forall>k. k \<noteq> py ''TERM'' \<longrightarrow> env k = environ w k)
           \<and> fst (run args w) =
               (case child w [py ''bash'', py ''-c'', final] env of
                  Inl (CalledProcessError m) \<Rightarrow> Inr 1
                | r \<Rightarrow> r)"
proof -
  from run_confirmed[OF assms(1-4)] assms(5) obtain w3 where
    r: "run args w = execute final w3"
    and s: "spawned w3 = spawned w" "environ w3 = environ w" "child w3 = child w" by auto
  let ?env = "(environ w)(py ''TERM'' \<mapsto> py ''xterm-256color'')"
  have "spawned (snd (run args w)) = spawned w @ [([py ''bash'', py ''-c'', final], ?env)]"
    using r s execute_spawned[of final w3] by simp
  moreover have "fst (run args w) =
               (case child w [py ''bash'', py ''-c'', final] ?env of
                  Inl (CalledProcessError m) \<Rightarrow> Inr 1
                | r \<Rightarrow> r)"
    using r s execute_result[of final w3] by simp
  moreover have "?env (py ''TERM'') = Some (py ''xterm-256color'')" by simp
  moreover have "\<forall>k. k \<noteq> py ''TERM'' \<longrightarrow> ?env k = environ w k" by simp
  ultimately show ?thesis by blast
qed

lemma erase_all_run:
  "\<exists>w1. editing (Suc (Suc 0)) (py ''ls'') (int (length (py ''ls'')))
          (loop_start (terminal (py ''ls'') [127, 127, 13])) = Some ([], 0, w1)
        \<and> stdin w1 = [13]"
  by (simp add: terminal_def loop_start_def loop_body_def dispatch_def csi_key_def world_ops Let_def
      slice_to_def slice_from_def slice_index_def)

lemma erase_one_run:
  "\<exists>w1. editing (Suc 0) (py ''ls'') (int (length (py ''ls'')))
          (loop_start (terminal (py ''ls'') [127, 13])) = Some (py ''l'', 1, w1)
        \<and> stdin w1 = [13]"
  by (simp add: terminal_def loop_start_def loop_body_def dispatch_def csi_key_def world_ops Let_def
      slice_to_def slice_from_def slice_index_def)

theorem confirmed_text_witness:
  "(\<exists>env. spawned (snd (run [py ''list''] (terminal (py ''ls'') [127, 127, 13]))) =
           [([py ''bash'', py ''-c'', py ''ls''], env)])
   \<and> (\<exists>env. spawned (snd (run [py ''list''] (terminal (py ''ls'') [127, 13]))) =
           [([py ''bash'', py ''-c'', py ''l''], env)])"
proof -
  let ?w = "terminal (py ''ls'') [127, 127, 13]"
  let ?v = "terminal (py ''ls'') [127, 13]"
  obtain w1 where e:
    "editing (Suc (Suc 0)) (py ''ls'') (int (length (py ''ls''))) (loop_start ?w) = Some ([], 0, w1)"
    and s: "stdin w1 = [13]"
    using erase_all_run by blast
  obtain v1 where e':
    "editing (Suc 0) (py ''ls'') (int (length (py ''ls''))) (loop_start ?v) = Some (py ''l'', 1, v1)"
    and s': "stdin v1 = [13]"
    using erase_one_run by blast
  have l: "llm ?w [py ''list''] = Inr (py ''ls'')" and t: "isatty ?w"
    by (simp_all add: terminal_def)
  have l': "llm ?v [py ''list''] = Inr (py ''ls'')" and t': "isatty ?v"
    by (simp_all add: terminal_def)
  from confirmed_text[OF l t e s] confirmed_text[OF l' t' e' s'] show ?thesis
    by (simp add: terminal_def)
qed

theorem executes_bash_witness:
  "\<exists>env. spawned (snd (run [py ''list''] (terminal (py ''ls'') [127, 13]))) =
           [([py ''bash'', py ''-c'', py ''l''], env)]
         \<and> env (py ''TERM'') = Some (py ''xterm-256color'')
         \<and> env (py ''HOME'') = None
         \<and> fst (run [py ''list''] (terminal (py ''ls'') [127, 13])) = Inr 0"
proof -
  let ?v = "terminal (py ''ls'') [127, 13]"
  obtain v1 where e':
    "editing (Suc 0) (py ''ls'') (int (length (py ''ls''))) (loop_start ?v) = Some (py ''l'', 1, v1)"
    and s': "stdin v1 = [13]"
    using erase_one_run by blast
  have l': "llm ?v [py ''list''] = Inr (py ''ls'')" and t': "isatty ?v"
    by (simp_all add: terminal_def)
  have f: "py ''l'' = (if py ''l'' = [] then py ''ls'' else py ''l'')" by simp
  from executes_bash[OF l' t' e' s' f] obtain env where
    a: "spawned (snd (run [py ''list''] ?v)) = spawned ?v @ [([py ''bash'', py ''-c'', py ''l''], env)]"
    and b: "env (py ''TERM'') = Some (py ''xterm-256color'')"
    and c: "\<forall>k. k \<noteq> py ''TERM'' \<longrightarrow> env k = environ ?v k"
    and d: "fst (run [py ''list''] ?v) =
               (case child ?v [py ''bash'', py ''-c'', py ''l''] env of
                  Inl (CalledProcessError m) \<Rightarrow> Inr 1
                | r \<Rightarrow> r)"
    by blast
  from c have "env (py ''HOME'') = environ ?v (py ''HOME'')" by simp
  then have "env (py ''HOME'') = None" by (simp add: terminal_def)
  moreover from d have "fst (run [py ''list''] ?v) = Inr 0" by (simp add: terminal_def)
  moreover from a have "spawned (snd (run [py ''list''] ?v)) = [([py ''bash'', py ''-c'', py ''l''], env)]"
    by (simp add: terminal_def)
  ultimately show ?thesis using b by blast
qed

text \<open>What a session that ends with a bare escape does.\<close>

lemma run_cancelled:
  assumes "llm w args = Inr command" "isatty w"
    and "editing n command (int (length command)) (loop_start w) = Some (t, p, w1)"
    and "stdin w1 = 27 # rest" and "take 1 rest \<noteq> [91]"
  shows "\<exists>w2. run args w = (Inr 0, w2) \<and> same_frame w w2
              \<and> (\<exists>out. stdout w2 = out @ 10 # py ''Cancelled.'' @ [10])"
proof -
  have f1: "same_frame (loop_start w) w1" using editing_frame[OF assms(3)] .
  then have tty1: "isatty w1" using assms(2) by (simp add: same_frame_def)
  from escape_exit[OF tty1 assms(4,5)] obtain w2 where
    x: "edit_loop t p w1 = (Inr (Returned 0), w2)"
    and o: "stdout w2 = stdout (repaint t p w1) @ 10 # py ''Cancelled.'' @ [10]" by blast
  have f2: "same_frame w1 w2" using edit_loop_frame[OF x] .
  have l: "edit_loop command (int (length command)) (loop_start w) = (Inr (Returned 0), w2)"
    using editing_edit_loop[OF assms(3)] x by simp
  let ?w3 = "tcsetattr (attrs w) w2"
  have "run args w = (Inr 0, ?w3)"
    using run_unfold[OF assms(1,2) l] by simp
  moreover have "same_frame w ?w3"
    using f1 f2 by (simp add: same_frame_def tcsetattr_def)
  moreover have "stdout ?w3 = stdout (repaint t p w1) @ 10 # py ''Cancelled.'' @ [10]"
    using o by (simp add: tcsetattr_def)
  ultimately show ?thesis by blast
qed

text \<open>What a session does whose input ends while the loop waits for a key.\<close>

lemma run_end_of_input:
  assumes "llm w args = Inr command" "isatty w"
    and "editing n command (int (length command)) (loop_start w) = Some (t, p, w1)"
    and "stdin w1 = [] \<or> stdin w1 = [27, 91] \<or> stdin w1 = [27, 91, 51]"
  shows "\<exists>w2. run args w = (Inl TypeError, w2) \<and> same_frame w w2"
proof -
  have f1: "same_frame (loop_start w) w1" using editing_frame[OF assms(3)] .
  then have tty1: "isatty w1" using assms(2) by (simp add: same_frame_def)
  from eof_any_exit[OF tty1 assms(4)] obtain w2 where
    x: "edit_loop t p w1 = (Inl TypeError, w2)" by blast
  have f2: "same_frame w1 w2" using edit_loop_frame[OF x] .
  have l: "edit_loop command (int (length command)) (loop_start w) = (Inl TypeError, w2)"
    using editing_edit_loop[OF assms(3)] x by simp
  let ?w3 = "tcsetattr (attrs w) w2"
  have "run args w = (Inl TypeError, ?w3)"
    using run_unfold[OF assms(1,2) l] by simp
  moreover have "same_frame w ?w3"
    using f1 f2 by (simp add: same_frame_def tcsetattr_def)
  ultimately show ?thesis by blast
qed

lemma main_run:
  assumes "init_error w = None" "drop 1 argv = args" "args \<noteq> []" "run args w = (r, w2)"
  shows "main argv w =
     (case r of Inl e \<Rightarrow> (1, py_print (py ''Error: '' @ str_exc e) w2) | Inr n \<Rightarrow> (n, w2))"
  using assms by (simp add: main_def Let_def split: sum.splits)

text \<open>
  C5. At any point of a session, when the loop reads an escape character followed by
  a character other than \<^verbatim>\<open>[\<close>, \<open>run\<close> prints the cancellation notice and returns 0;
  no child process is started and the translation service still answers the same seed
  text.
\<close>

theorem bare_escape_cancels:
  assumes "llm w args = Inr command" and "isatty w"
    and "editing n command (int (length command)) (loop_start w) = Some (input_text, position, w1)"
    and "stdin w1 = 27 # c # rest" and "c \<noteq> 91"
  shows "fst (run args w) = Inr 0
       \<and> spawned (snd (run args w)) = spawned w
       \<and> llm (snd (run args w)) args = Inr command
       \<and> (\<exists>out. stdout (snd (run args w)) = out @ 10 # py ''Cancelled.'' @ [10])"
proof -
  from assms(5) have "take 1 (c # rest) \<noteq> [91]" by simp
  from run_cancelled[OF assms(1-4) this] obtain w2 where
    "run args w = (Inr 0, w2)" "same_frame w w2"
    "\<exists>out. stdout w2 = out @ 10 # py ''Cancelled.'' @ [10]" by blast
  then show ?thesis using assms(1) by (simp add: same_frame_def)
qed

lemma type_then_escape_run:
  "\<exists>w1. editing (Suc 0) (py ''ls'') (int (length (py ''ls'')))
          (loop_start (terminal (py ''ls'') [120, 27, 120])) = Some (py ''lsx'', 3, w1)
        \<and> stdin w1 = [27, 120]"
  by (simp add: terminal_def loop_start_def loop_body_def dispatch_def csi_key_def world_ops Let_def
      slice_to_def slice_from_def slice_index_def)

theorem bare_escape_cancels_witness:
  "fst (run [py ''list''] (terminal (py ''ls'') [120, 27, 120])) = Inr 0
   \<and> spawned (snd (run [py ''list''] (terminal (py ''ls'') [120, 27, 120]))) = []
   \<and> llm (snd (run [py ''list''] (terminal (py ''ls'') [120, 27, 120]))) [py ''list''] = Inr (py ''ls'')"
proof -
  let ?w = "terminal (py ''ls'') [120, 27, 120]"
  obtain w1 where e:
    "editing (Suc 0) (py ''ls'') (int (length (py ''ls''))) (loop_start ?w) = Some (py ''lsx'', 3, w1)"
    and s: "stdin w1 = [27, 120]"
    using type_then_escape_run by blast
  have l: "llm ?w [py ''list''] = Inr (py ''ls'')" and t: "isatty ?w"
    by (simp_all add: terminal_def)
  have c: "(120::nat) \<noteq> 91" by simp
  from bare_escape_cancels[OF l t e s c] show ?thesis by (simp add: terminal_def)
qed

lemma true_enter_run:
  "editing 0 (py ''true'') (int (length (py ''true''))) (loop_start (terminal (py ''true'') [13]))
     = Some (py ''true'', 4, loop_start (terminal (py ''true'') [13]))"
  by simp

text \<open>
  C9. When a session ends with a bare escape, \<open>run\<close> returns 0 and \<open>main\<close> hands the
  status 0 to \<^verbatim>\<open>sys.exit\<close>. The status does not tell a cancelled session from an
  executed one: with the same command line there is a session that starts a child
  process and ends with status 0 as well.
\<close>

theorem cancel_exit_status:
  assumes "init_error w = None" and "drop 1 argv = args" and "args \<noteq> []"
    and "llm w args = Inr command" and "isatty w"
    and "editing n command (int (length command)) (loop_start w) = Some (input_text, position, w1)"
    and "stdin w1 = 27 # c # rest" and "c \<noteq> 91"
  shows "fst (run args w) = Inr 0 \<and> fst (main argv w) = 0
       \<and> (\<exists>v. fst (main argv v) = 0 \<and> spawned v = [] \<and> spawned (snd (main argv v)) \<noteq> [])"
proof -
  from assms(8) have "take 1 (c # rest) \<noteq> [91]" by simp
  from run_cancelled[OF assms(4-7) this] obtain w2 where r: "run args w = (Inr 0, w2)" by blast
  then have a: "fst (run args w) = Inr 0" by simp
  have b: "fst (main argv w) = 0" using main_run[OF assms(1-3) r] by simp
  let ?v = "terminal (py ''true'') [13]"
  have "isatty ?v" "llm ?v args = Inr (py ''true'')" "stdin (loop_start ?v) = 13 # []"
    by (simp_all add: terminal_def)
  from run_confirmed[OF this(2) this(1) true_enter_run this(3)] obtain v3 where
    x: "run args ?v = execute (py ''true'') v3"
    and s: "spawned v3 = spawned ?v" "environ v3 = environ ?v" "child v3 = child ?v" by auto
  obtain r' v4 where y: "run args ?v = (r', v4)" by (cases "run args ?v")
  have "r' = Inr 0" using x y s execute_result[of "py ''true''" v3] by (simp add: terminal_def)
  with y have m: "main argv ?v = (0, v4)"
    using main_run[OF _ assms(2,3) y] by (simp add: terminal_def)
  have "spawned v4 \<noteq> []" using x y execute_spawned[of "py ''true''" v3] by simp
  with m have "fst (main argv ?v) = 0 \<and> spawned ?v = [] \<and> spawned (snd (main argv ?v)) \<noteq> []"
    by (simp add: terminal_def)
  then show ?thesis using a b by blast
qed

theorem cancel_exit_status_witness:
  "fst (run [py ''list''] (terminal (py ''ls'') [120, 27, 120])) = Inr 0
   \<and> fst (main [py ''ai'', py ''list''] (terminal (py ''ls'') [120, 27, 120])) = 0"
proof -
  let ?w = "terminal (py ''ls'') [120, 27, 120]"
  obtain w1 where e:
    "editing (Suc 0) (py ''ls'') (int (length (py ''ls''))) (loop_start ?w) = Some (py ''lsx'', 3, w1)"
    and s: "stdin w1 = [27, 120]"
    using type_then_escape_run by blast
  have l: "llm ?w [py ''list''] = Inr (py ''ls'')" and t: "isatty ?w"
    and i: "init_error ?w = None"
    by (simp_all add: terminal_def)
  have d: "drop 1 [py ''ai'', py ''list''] = [py ''list'']" and n: "[py ''list''] \<noteq> []"
    by simp_all
  have c: "(120::nat) \<noteq> 91" by simp
  from cancel_exit_status[OF i d n l t e s c] show ?thesis by blast
qed

text \<open>
  C3, as stated, fails. With the seed \<^verbatim>\<open>ls\<close> and an input that is at its end when the
  loop waits for the first key, \<^verbatim>\<open>ord('')\<close> raises \<^verbatim>\<open>TypeError\<close>: \<open>run\<close> does not
  return 0 as it does for a cancelled session, and \<open>main\<close> ends with status 1.
\<close>

theorem end_of_input_counterexample:
  "fst (run [py ''list''] (terminal (py ''ls'') [])) = Inl TypeError
   \<and> fst (run [py ''list''] (terminal (py ''ls'') [])) \<noteq> Inr 0
   \<and> fst (main [py ''ai'', py ''list''] (terminal (py ''ls'') [])) = 1"
proof -
  let ?w = "terminal (py ''ls'') []"
  have e: "editing 0 (py ''ls'') (int (length (py ''ls''))) (loop_start ?w)
     = Some (py ''ls'', 2, loop_start ?w)" by simp
  have l: "llm ?w [py ''list''] = Inr (py ''ls'')" and t: "isatty ?w"
    and i: "init_error ?w = None" and s: "stdin (loop_start ?w) = []"
    by (simp_all add: terminal_def)
  from s have "stdin (loop_start ?w) = [] \<or> stdin (loop_start ?w) = [27, 91]
      \<or> stdin (loop_start ?w) = [27, 91, 51]" by (rule disjI1)
  from run_end_of_input[OF l t e this] obtain w2 where
    r: "run [py ''list''] ?w = (Inl TypeError, w2)"
    by blast
  have "drop 1 [py ''ai'', py ''list''] = [py ''list'']" "[py ''list''] \<noteq> []" by simp_all
  from main_run[OF i this r] r show ?thesis by simp
qed

text \<open>
  C3, amended. The loop reads a character at four places: the first character of a
  key, the character after an escape, the character after \<^verbatim>\<open>ESC [\<close>, and the
  character after \<^verbatim>\<open>ESC [ 3\<close>. When the input ends at the first, the third or the
  fourth of them, \<open>run\<close> raises \<^verbatim>\<open>TypeError\<close> (at the third and the fourth the empty
  read is ignored and the next iteration raises): the terminal attributes are those
  from before, no child process is started, and \<open>main\<close> prints \<^verbatim>\<open>Error:\<close> with the
  text of the exception and ends with status 1. When the input ends at the second,
  right after an escape character, the session ends as a cancelled one does: \<open>run\<close>
  prints the cancellation notice and returns 0, nothing is started, and \<open>main\<close> ends
  with status 0.
\<close>

theorem end_of_input_raises:
  assumes "init_error w = None" and "drop 1 argv = args" and "args \<noteq> []"
    and "llm w args = Inr command" and "isatty w"
    and "editing n command (int (length command)) (loop_start w) = Some (input_text, position, w1)"
  shows "(stdin w1 = [] \<or> stdin w1 = [27, 91] \<or> stdin w1 = [27, 91, 51] \<longrightarrow>
            fst (run args w) = Inl TypeError
          \<and> attrs (snd (run args w)) = attrs w
          \<and> spawned (snd (run args w)) = spawned w
          \<and> fst (main argv w) = 1
          \<and> stdout (snd (main argv w)) =
              stdout (snd (run args w)) @ py ''Error: '' @ str_exc TypeError @ [10]
          \<and> spawned (snd (main argv w)) = spawned w)
       \<and> (stdin w1 = [27] \<longrightarrow>
            fst (run args w) = Inr 0
          \<and> attrs (snd (run args w)) = attrs w
          \<and> spawned (snd (run args w)) = spawned w
          \<and> (\<exists>out. stdout (snd (run args w)) = out @ 10 # py ''Cancelled.'' @ [10])
          \<and> fst (main argv w) = 0
          \<and> stdout (snd (main argv w)) = stdout (snd (run args w))
          \<and> spawned (snd (main argv w)) = spawned w)"
proof (intro conjI impI)
  assume s: "stdin w1 = [] \<or> stdin w1 = [27, 91] \<or> stdin w1 = [27, 91, 51]"
  from run_end_of_input[OF assms(4-6) s] obtain w2 where
    r: "run args w = (Inl TypeError, w2)" and f: "same_frame w w2" by blast
  have m: "main argv w = (1, py_print (py ''Error: '' @ str_exc TypeError) w2)"
    using main_run[OF assms(1-3) r] by simp
  from r show "fst (run args w) = Inl TypeError" by simp
  from r f show "attrs (snd (run args w)) = attrs w" by (simp add: same_frame_def)
  from r f show "spawned (snd (run args w)) = spawned w" by (simp add: same_frame_def)
  from m show "fst (main argv w) = 1" by simp
  from m r show "stdout (snd (main argv w)) =
      stdout (snd (run args w)) @ py ''Error: '' @ str_exc TypeError @ [10]"
    by (simp add: py_print_def stdout_write_def)
  from m f show "spawned (snd (main argv w)) = spawned w"
    by (simp add: same_frame_def py_print_def stdout_write_def)
next
  assume s: "stdin w1 = [27]"
  have "take 1 [] \<noteq> [91::nat]" by simp
  from run_cancelled[OF assms(4-6) s this] obtain w2 where
    r: "run args w = (Inr 0, w2)" and f: "same_frame w w2"
    and o: "\<exists>out. stdout w2 = out @ 10 # py ''Cancelled.'' @ [10]" by blast
  have m: "main argv w = (0, w2)" using main_run[OF assms(1-3) r] by simp
  from r show "fst (run args w) = Inr 0" by simp
  from r f show "attrs (snd (run args w)) = attrs w" by (simp add: same_frame_def)
  from r f show "spawned (snd (run args w)) = spawned w" by (simp add: same_frame_def)
  from r o show "\<exists>out. stdout (snd (run args w)) = out @ 10 # py ''Cancelled.'' @ [10]"
    by simp
  from m show "fst (main argv w) = 0" by simp
  from m r show "stdout (snd (main argv w)) = stdout (snd (run args w))" by simp
  from m f show "spawned (snd (main argv w)) = spawned w" by (simp add: same_frame_def)
qed

lemma type_then_end_run:
  "\<exists>w1. editing (Suc 0) (py ''ls'') (int (length (py ''ls'')))
          (loop_start (terminal (py ''ls'') [120])) = Some (py ''lsx'', 3, w1)
        \<and> stdin w1 = []"
  by (simp add: terminal_def loop_start_def loop_body_def dispatch_def csi_key_def world_ops Let_def
      slice_to_def slice_from_def slice_index_def)

lemma type_then_escape_end_run:
  "\<exists>w1. editing (Suc 0) (py ''ls'') (int (length (py ''ls'')))
          (loop_start (terminal (py ''ls'') [120, 27])) = Some (py ''lsx'', 3, w1)
        \<and> stdin w1 = [27]"
  by (simp add: terminal_def loop_start_def loop_body_def dispatch_def csi_key_def world_ops Let_def
      slice_to_def slice_from_def slice_index_def)

lemma type_then_csi_end_run:
  "\<exists>w1. editing (Suc 0) (py ''ls'') (int (length (py ''ls'')))
          (loop_start (terminal (py ''ls'') [120, 27, 91])) = Some (py ''lsx'', 3, w1)
        \<and> stdin w1 = [27, 91]"
  by (simp add: terminal_def loop_start_def loop_body_def dispatch_def csi_key_def world_ops Let_def
      slice_to_def slice_from_def slice_index_def)

lemma type_then_csi3_end_run:
  "\<exists>w1. editing (Suc 0) (py ''ls'') (int (length (py ''ls'')))
          (loop_start (terminal (py ''ls'') [120, 27, 91, 51])) = Some (py ''lsx'', 3, w1)
        \<and> stdin w1 = [27, 91, 51]"
  by (simp add: terminal_def loop_start_def loop_body_def dispatch_def csi_key_def world_ops Let_def
      slice_to_def slice_from_def slice_index_def)

theorem end_of_input_raises_witness:
  "fst (run [py ''list''] (terminal (py ''ls'') [120])) = Inl TypeError
   \<and> fst (main [py ''ai'', py ''list''] (terminal (py ''ls'') [120])) = 1
   \<and> spawned (snd (main [py ''ai'', py ''list''] (terminal (py ''ls'') [120]))) = []
   \<and> fst (run [py ''list''] (terminal (py ''ls'') [120, 27, 91])) = Inl TypeError
   \<and> fst (main [py ''ai'', py ''list''] (terminal (py ''ls'') [120, 27, 91])) = 1
   \<and> fst (run [py ''list''] (terminal (py ''ls'') [120, 27, 91, 51])) = Inl TypeError
   \<and> fst (main [py ''ai'', py ''list''] (terminal (py ''ls'') [120, 27, 91, 51])) = 1
   \<and> fst (run [py ''list''] (terminal (py ''ls'') [120, 27])) = Inr 0
   \<and> fst (main [py ''ai'', py ''list''] (terminal (py ''ls'') [120, 27])) = 0"
proof -
  let ?w = "terminal (py ''ls'') [120]"
  let ?v = "terminal (py ''ls'') [120, 27]"
  let ?u = "terminal (py ''ls'') [120, 27, 91]"
  let ?x = "terminal (py ''ls'') [120, 27, 91, 51]"
  obtain w1 where ew:
    "editing (Suc 0) (py ''ls'') (int (length (py ''ls''))) (loop_start ?w) = Some (py ''lsx'', 3, w1)"
    and sw: "stdin w1 = []"
    using type_then_end_run by blast
  obtain v1 where ev:
    "editing (Suc 0) (py ''ls'') (int (length (py ''ls''))) (loop_start ?v) = Some (py ''lsx'', 3, v1)"
    and sv: "stdin v1 = [27]"
    using type_then_escape_end_run by blast
  obtain u1 where eu:
    "editing (Suc 0) (py ''ls'') (int (length (py ''ls''))) (loop_start ?u) = Some (py ''lsx'', 3, u1)"
    and su: "stdin u1 = [27, 91]"
    using type_then_csi_end_run by blast
  obtain x1 where ex:
    "editing (Suc 0) (py ''ls'') (int (length (py ''ls''))) (loop_start ?x) = Some (py ''lsx'', 3, x1)"
    and sx: "stdin x1 = [27, 91, 51]"
    using type_then_csi3_end_run by blast
  have l: "\<And>keys. llm (terminal (py ''ls'') keys) [py ''list''] = Inr (py ''ls'')"
    and t: "\<And>keys. isatty (terminal (py ''ls'') keys)"
    and i: "\<And>keys. init_error (terminal (py ''ls'') keys) = None"
    by (simp_all add: terminal_def)
  have d: "drop 1 [py ''ai'', py ''list''] = [py ''list'']" and n: "[py ''list''] \<noteq> []"
    by simp_all
  from end_of_input_raises[OF i d n l t ew] sw
  have a: "fst (run [py ''list''] ?w) = Inl TypeError"
    "fst (main [py ''ai'', py ''list''] ?w) = 1"
    "spawned (snd (main [py ''ai'', py ''list''] ?w)) = []"
    by (simp_all add: terminal_def)
  from end_of_input_raises[OF i d n l t eu] su
  have b: "fst (run [py ''list''] ?u) = Inl TypeError"
    "fst (main [py ''ai'', py ''list''] ?u) = 1"
    by simp_all
  from end_of_input_raises[OF i d n l t ex] sx
  have c: "fst (run [py ''list''] ?x) = Inl TypeError"
    "fst (main [py ''ai'', py ''list''] ?x) = 1"
    by simp_all
  from end_of_input_raises[OF i d n l t ev] sv
  have "fst (run [py ''list''] ?v) = Inr 0"
    "fst (main [py ''ai'', py ''list''] ?v) = 0"
    by simp_all
  with a b c show ?thesis by simp
qed

subsection \<open>The termios calls of a session\<close>

lemma key_calls_twice:
  "concat (replicate j (key_calls a)) @ concat (replicate k (key_calls a))
     = concat (replicate (j + k) (key_calls a))"
  by (simp add: replicate_add)

lemma restores_key_calls: "restores (concat (replicate k (key_calls a))) = k"
  by (induction k) (simp_all add: restores_def key_calls_def)

lemma csi_key_calls:
  assumes "isatty w"
  shows "\<exists>k. tty_calls (snd (csi_key t p w)) = tty_calls w @ concat (replicate (Suc k) (key_calls (attrs w)))"
proof -
  let ?K = "key_calls (attrs w)"
  have "tty_calls (snd (csi_key t p w)) = tty_calls w @ ?K
      \<or> tty_calls (snd (csi_key t p w)) = tty_calls w @ ?K @ ?K"
    using assms by (simp add: csi_key_def get_char_tty)
  then show ?thesis
  proof
    assume "tty_calls (snd (csi_key t p w)) = tty_calls w @ ?K"
    then have "tty_calls (snd (csi_key t p w)) = tty_calls w @ concat (replicate (Suc 0) ?K)"
      by simp
    then show ?thesis by blast
  next
    assume "tty_calls (snd (csi_key t p w)) = tty_calls w @ ?K @ ?K"
    then have "tty_calls (snd (csi_key t p w)) = tty_calls w @ concat (replicate (Suc (Suc 0)) ?K)"
      by simp
    then show ?thesis by blast
  qed
qed

lemma dispatch_calls:
  assumes "isatty w"
  shows "\<exists>k. tty_calls (snd (dispatch ch t p w)) = tty_calls w @ concat (replicate k (key_calls (attrs w)))"
proof -
  let ?K = "key_calls (attrs w)"
  let ?w1 = "w\<lparr>stdin := drop 1 (stdin w), tty_calls := tty_calls w @ ?K\<rparr>"
  have tty1: "isatty ?w1" using assms by simp
  from csi_key_calls[OF tty1, of t p] obtain k where
    c: "tty_calls (snd (csi_key t p ?w1)) = tty_calls w @ ?K @ concat (replicate (Suc k) ?K)"
    by auto
  then have c': "tty_calls (snd (csi_key t p ?w1)) = tty_calls w @ concat (replicate (Suc (Suc k)) ?K)"
    by simp
  have "tty_calls (snd (dispatch ch t p w)) = tty_calls w
      \<or> tty_calls (snd (dispatch ch t p w)) = tty_calls w @ ?K
      \<or> tty_calls (snd (dispatch ch t p w)) = tty_calls (snd (csi_key t p ?w1))"
    using assms
    by (simp add: dispatch_def get_char_tty py_print_def stdout_write_def split: sum.splits)
  then consider "tty_calls (snd (dispatch ch t p w)) = tty_calls w @ concat (replicate 0 ?K)"
    | "tty_calls (snd (dispatch ch t p w)) = tty_calls w @ concat (replicate (Suc 0) ?K)"
    | "tty_calls (snd (dispatch ch t p w)) = tty_calls w @ concat (replicate (Suc (Suc k)) ?K)"
    using c' by auto
  then show ?thesis by cases blast+
qed

lemma loop_body_calls:
  assumes "isatty w"
  shows "\<exists>k. tty_calls (snd (loop_body t p w)) = tty_calls w @ concat (replicate (Suc k) (key_calls (attrs w)))"
proof -
  let ?K = "key_calls (attrs w)"
  let ?w1 = "(repaint t p w)\<lparr>stdin := drop 1 (stdin w), tty_calls := tty_calls (repaint t p w) @ ?K\<rparr>"
  have rc: "tty_calls (repaint t p w) = tty_calls w"
    by (simp add: repaint_def stdout_write_def Let_def)
  have tty1: "isatty ?w1" and a1: "attrs ?w1 = attrs w" using assms by simp_all
  have "loop_body t p w = dispatch (take 1 (stdin w)) t p ?w1"
    using assms by (simp add: loop_body_def get_char_tty)
  moreover from dispatch_calls[OF tty1, of "take 1 (stdin w)" t p] a1 obtain k where
    "tty_calls (snd (dispatch (take 1 (stdin w)) t p ?w1)) = tty_calls ?w1 @ concat (replicate k ?K)"
    by auto
  ultimately have "tty_calls (snd (loop_body t p w)) = tty_calls w @ concat (replicate (Suc k) ?K)"
    by (simp add: rc)
  then show ?thesis by blast
qed

lemma edit_loop_calls:
  "isatty w \<Longrightarrow> \<exists>k. tty_calls (snd (edit_loop t p w)) =
      tty_calls w @ concat (replicate (Suc k) (key_calls (attrs w)))"
proof (induction t p w rule: edit_loop.induct)
  case (1 t p w)
  let ?K = "key_calls (attrs w)"
  obtain r1 w1 where b: "loop_body t p w = (r1, w1)" by (cases "loop_body t p w")
  from loop_body_calls[OF "1.prems", of t p] b obtain j where
    j: "tty_calls w1 = tty_calls w @ concat (replicate (Suc j) ?K)" by auto
  have f: "same_frame w w1" using loop_body_frame[OF b] .
  show ?case
  proof (cases r1)
    case (Inl e)
    with b j show ?thesis by (auto simp add: edit_loop.simps[of t p w])
  next
    case (Inr c)
    show ?thesis
    proof (cases c)
      case (Continue t1 p1)
      have tty1: "isatty w1" and a1: "attrs w1 = attrs w"
        using f "1.prems" by (simp_all add: same_frame_def)
      from "1.IH"[OF b[symmetric] Inr Continue tty1] a1 obtain k where
        "tty_calls (snd (edit_loop t1 p1 w1)) = tty_calls w1 @ concat (replicate (Suc k) ?K)"
        by auto
      with j have "tty_calls (snd (edit_loop t1 p1 w1)) =
          tty_calls w @ concat (replicate (Suc j) ?K) @ concat (replicate (Suc k) ?K)" by simp
      then have "tty_calls (snd (edit_loop t1 p1 w1)) =
          tty_calls w @ concat (replicate (Suc (j + Suc k)) ?K)"
        by (simp only: key_calls_twice add_Suc)
      moreover have "edit_loop t p w = edit_loop t1 p1 w1"
        using b Inr Continue by (simp add: edit_loop.simps[of t p w])
      ultimately have "tty_calls (snd (edit_loop t p w)) =
          tty_calls w @ concat (replicate (Suc (j + Suc k)) ?K)" by (simp only:)
      then show ?thesis by (rule exI)
    next
      case Break
      with Inr b j show ?thesis by (auto simp add: edit_loop.simps[of t p w])
    next
      case (Return n)
      with Inr b j show ?thesis by (auto simp add: edit_loop.simps[of t p w])
    qed
  qed
qed

lemma execute_tty:
  "tty_calls (snd (execute text w)) = tty_calls w \<and> attrs (snd (execute text w)) = attrs w"
  by (simp add: execute_def subprocess_call_def py_print_def stdout_write_def Let_def
      split: sum.splits py_error.splits)

lemma run_calls:
  assumes "llm w args = Inr command" "isatty w"
  shows "\<exists>k. tty_calls (snd (run args w)) =
            tty_calls w @ TcGetAttr # concat (replicate (Suc k) (key_calls (attrs w)))
              @ [TcSetAttr (attrs w)]
          \<and> attrs (snd (run args w)) = attrs w"
proof -
  obtain r w2 where l: "edit_loop command (int (length command)) (loop_start w) = (r, w2)"
    by (cases "edit_loop command (int (length command)) (loop_start w)")
  have "isatty (loop_start w)" using assms(2) by simp
  from edit_loop_calls[OF this, of command "int (length command)"] l obtain k where
    k: "tty_calls w2 = tty_calls w @ TcGetAttr # concat (replicate (Suc k) (key_calls (attrs w)))"
    by auto
  let ?w3 = "tcsetattr (attrs w) w2"
  have c3: "tty_calls ?w3 = tty_calls w @ TcGetAttr # concat (replicate (Suc k) (key_calls (attrs w)))
              @ [TcSetAttr (attrs w)]"
    and a3: "attrs ?w3 = attrs w"
    using k by (simp_all add: tcsetattr_def)
  have "tty_calls (snd (run args w)) = tty_calls ?w3 \<and> attrs (snd (run args w)) = attrs ?w3"
    using run_unfold[OF assms l] execute_tty
    by (simp add: py_print_def stdout_write_def split: sum.splits loop_exit.splits)
  with c3 a3 show ?thesis by (simp only:) blast
qed

text \<open>
  C2, amended. In every session, whichever way the loop ends, the termios calls of
  \<open>run\<close> are: one \<^verbatim>\<open>tcgetattr\<close>; then, for each of the \<open>k + 1\<close> reads of a
  character, \<^verbatim>\<open>tcgetattr\<close>, \<^verbatim>\<open>setraw\<close> and a \<^verbatim>\<open>tcsetattr\<close> back to the prior
  attributes; then, last, the one \<^verbatim>\<open>tcsetattr\<close> of the \<^verbatim>\<open>finally\<close> clause of \<open>run\<close>,
  again to the prior attributes. So the attributes are set back \<open>k + 2\<close> times, at
  least twice, and the terminal ends with the attributes it had before.
\<close>

theorem restored_after_every_read:
  assumes "llm w args = Inr command" and "isatty w"
  shows "\<exists>k calls. tty_calls (snd (run args w)) = tty_calls w @ calls
          \<and> calls = TcGetAttr # concat (replicate (Suc k) (key_calls (attrs w)))
                      @ [TcSetAttr (attrs w)]
          \<and> restores calls = Suc (Suc k)
          \<and> attrs (snd (run args w)) = attrs w"
proof -
  from run_calls[OF assms] obtain k where
    c: "tty_calls (snd (run args w)) =
            tty_calls w @ TcGetAttr # concat (replicate (Suc k) (key_calls (attrs w)))
              @ [TcSetAttr (attrs w)]"
    and a: "attrs (snd (run args w)) = attrs w" by blast
  let ?calls = "TcGetAttr # concat (replicate (Suc k) (key_calls (attrs w))) @ [TcSetAttr (attrs w)]"
  have "restores ?calls = restores (concat (replicate (Suc k) (key_calls (attrs w)))) + 1"
    by (simp add: restores_def)
  then have "restores ?calls = Suc (Suc k)" by (simp only: restores_key_calls)
  with c a show ?thesis by blast
qed

theorem restored_after_every_read_witness:
  "attrs (snd (run [py ''list''] (terminal (py ''ls'') [120, 13]))) = Attr False 0
   \<and> (\<exists>k. restores (tty_calls (snd (run [py ''list''] (terminal (py ''ls'') [120, 13])))) = Suc (Suc k))"
proof -
  let ?w = "terminal (py ''ls'') [120, 13]"
  have l: "llm ?w [py ''list''] = Inr (py ''ls'')" and t: "isatty ?w"
    by (simp_all add: terminal_def)
  from restored_after_every_read[OF l t] obtain k calls where
    "tty_calls (snd (run [py ''list''] ?w)) = tty_calls ?w @ calls"
    "restores calls = Suc (Suc k)" "attrs (snd (run [py ''list''] ?w)) = attrs ?w" by blast
  then show ?thesis by (auto simp: terminal_def)
qed

text \<open>
  C2, as stated, fails. In the session in which Enter is the only key, the prior
  attributes are set back twice: once by \<open>get_char\<close> after the read and once by the
  \<^verbatim>\<open>finally\<close> clause of \<open>run\<close>.
\<close>

theorem restored_once_counterexample:
  "tty_calls (snd (run [py ''list''] (terminal (py ''ls'') [13]))) =
     [TcGetAttr, TcGetAttr, SetRaw, TcSetAttr (Attr False 0), TcSetAttr (Attr False 0)]
   \<and> restores (tty_calls (snd (run [py ''list''] (terminal (py ''ls'') [13])))) \<noteq> 1"
proof -
  have "tty_calls (snd (run [py ''list''] (terminal (py ''ls'') [13]))) =
     [TcGetAttr, TcGetAttr, SetRaw, TcSetAttr (Attr False 0), TcSetAttr (Attr False 0)]"
    by (simp add: run_def edit_session_def terminal_def edit_loop.simps loop_body_def
        dispatch_def world_ops execute_def subprocess_call_def Let_def)
  then show ?thesis by (simp add: restores_def)
qed

end
